theory Spec2Isabelle
  imports Complex_Main "HOL-Library.Word" "HOL-Library.Sublist" "HOL-Library.AList"
begin

section \<open>Strings\<close>

text \<open>
  A Python \<open>str\<close> is a sequence of code points. The model uses \<^typ>\<open>string\<close>, whose
  characters are the code points U+0000 to U+00FF, and gives \<open>str.isspace\<close>, \<open>str.lower\<close>
  and the regular-expression classes \<^verbatim>\<open>\w\<close> and \<^verbatim>\<open>\s\<close> the values CPython has
  on that range.
\<close>

definition cp :: "char \<Rightarrow> nat" where
  "cp c = of_char c"

definition py_isspace :: "char \<Rightarrow> bool" where
  \<comment> \<open>\<open>str.isspace\<close>, also the class \<^verbatim>\<open>\s\<close>: TAB..CR, FS..US, SPACE, NEL, NBSP\<close>
  "py_isspace c \<longleftrightarrow>
     (9 \<le> cp c \<and> cp c \<le> 13) \<or> (28 \<le> cp c \<and> cp c \<le> 32) \<or> cp c = 133 \<or> cp c = 160"

definition py_isupper :: "char \<Rightarrow> bool" where
  \<comment> \<open>the uppercase letters: A..Z and the accented capitals, without the multiplication sign\<close>
  "py_isupper c \<longleftrightarrow>
     (65 \<le> cp c \<and> cp c \<le> 90) \<or> (192 \<le> cp c \<and> cp c \<le> 222 \<and> cp c \<noteq> 215)"

definition py_lower_char :: "char \<Rightarrow> char" where
  "py_lower_char c = (if py_isupper c then char_of (cp c + 32) else c)"

definition py_lower :: "string \<Rightarrow> string" where
  \<comment> \<open>\<open>str.lower()\<close>\<close>
  "py_lower s = map py_lower_char s"

definition re_word :: "char \<Rightarrow> bool" where
  \<comment> \<open>the class \<^verbatim>\<open>\w\<close> of a \<open>str\<close> pattern: \<open>str.isalnum\<close> or the underscore\<close>
  "re_word c \<longleftrightarrow>
     (48 \<le> cp c \<and> cp c \<le> 57) \<or> (65 \<le> cp c \<and> cp c \<le> 90) \<or> cp c = 95 \<or>
     (97 \<le> cp c \<and> cp c \<le> 122) \<or>
     cp c = 170 \<or> cp c = 178 \<or> cp c = 179 \<or> cp c = 181 \<or> cp c = 185 \<or> cp c = 186 \<or>
     (188 \<le> cp c \<and> cp c \<le> 190) \<or> (192 \<le> cp c \<and> cp c \<le> 214) \<or>
     (216 \<le> cp c \<and> cp c \<le> 246) \<or> (248 \<le> cp c \<and> cp c \<le> 255)"

definition py_punctuation :: "char \<Rightarrow> bool" where
  \<comment> \<open>membership in Python's \<open>string.punctuation\<close>\<close>
  "py_punctuation c \<longleftrightarrow>
     (33 \<le> cp c \<and> cp c \<le> 47) \<or> (58 \<le> cp c \<and> cp c \<le> 64) \<or>
     (91 \<le> cp c \<and> cp c \<le> 96) \<or> (123 \<le> cp c \<and> cp c \<le> 126)"

definition py_strip :: "string \<Rightarrow> string" where
  \<comment> \<open>\<open>str.strip()\<close>\<close>
  "py_strip s = rev (dropWhile py_isspace (rev (dropWhile py_isspace s)))"

fun split_from :: "string \<Rightarrow> string \<Rightarrow> string list" where
  \<comment> \<open>the scan of \<open>str.split()\<close>; the first argument is the word being read, reversed\<close>
  "split_from w [] = (if w = [] then [] else [rev w])"
| "split_from w (c # cs) =
     (if py_isspace c then (if w = [] then split_from [] cs else rev w # split_from [] cs)
      else split_from (c # w) cs)"

definition py_split :: "string \<Rightarrow> string list" where
  \<comment> \<open>\<open>str.split()\<close> with no separator: the maximal runs of non-whitespace\<close>
  "py_split s = split_from [] s"

fun py_join :: "string \<Rightarrow> string list \<Rightarrow> string" where
  \<comment> \<open>\<open>sep.join(parts)\<close>\<close>
  "py_join sep [] = []"
| "py_join sep [w] = w"
| "py_join sep (w # ws) = w @ sep @ py_join sep ws"

fun py_in :: "string \<Rightarrow> string \<Rightarrow> bool" where
  \<comment> \<open>\<open>p in s\<close> on strings: \<open>p\<close> occurs in \<open>s\<close> as a contiguous substring\<close>
  "py_in p [] = (p = [])"
| "py_in p (c # cs) = (prefix p (c # cs) \<or> py_in p cs)"

definition py_endswith :: "string \<Rightarrow> string \<Rightarrow> bool" where
  "py_endswith s suf = suffix suf s"

section \<open>transcription.py: text sanitization\<close>

definition re_sub_nonword :: "string \<Rightarrow> string" where
  \<comment> \<open>\<open>re.sub(r'[^\w\s]', ' ', s)\<close>: every character outside both classes becomes a space\<close>
  "re_sub_nonword s = map (\<lambda>c. if re_word c \<or> py_isspace c then c else CHR '' '') s"

definition sanitize_text :: "string \<Rightarrow> string" where
  "sanitize_text text =
     (let sanitized = re_sub_nonword (py_lower text);
          sanitized = py_join '' '' (py_split sanitized)
      in sanitized)"

section \<open>The world outside the program\<close>

text \<open>
  The speech-recognition libraries, the operating system's process launcher and the
  console are outside the program. Each call that reaches them is recorded, in order, in a
  trace; what a call answers is given by an environment, which may depend on the calls made
  before it. An exception is a value carrying its message.

  \<open>subprocess.Popen(cmd, shell=True)\<close> either raises, or returns once the shell is started;
  the command then runs on its own and the shell exits with a status (0 for success, 127
  when the command is not found). The environment gives both: \<open>Inl\<close> the exception, or
  \<open>Inr\<close> the exit status of the launched shell, which the program never reads.
\<close>

datatype exn = Exception string

fun str_of_exn :: "exn \<Rightarrow> string" where
  "str_of_exn (Exception msg) = msg"

datatype whisper_model = WhisperModel string string string
  \<comment> \<open>\<open>WhisperModel(model_size_or_path, device=..., compute_type=...)\<close>\<close>

datatype effect =
    Console_print string
  | Popen string
  | WhisperModel_init string string string
  | Local_transcribe whisper_model "real list"
  | Api_transcribe "16 word list" nat

record local_options =
  compute_type :: string
  model_path :: "string option"
  device :: string
  model :: string
  condition_on_previous_text :: bool
  vad_filter :: bool

record common_options =
  language :: "string option"
  initial_prompt :: "string option"
  temperature :: real

record api_options =
  base_url :: "string option"
  api_model :: string

record post_processing_options =
  remove_trailing_period :: bool
  add_trailing_space :: bool
  remove_capitalization :: bool

record config =
  use_api :: bool
  local_opts :: local_options
  common_opts :: common_options
  api_opts :: api_options
  sample_rate :: "nat option"
  post_processing :: post_processing_options

record env =
  popen_outcome :: "effect list \<Rightarrow> string \<Rightarrow> exn + int"
  whisper_model_raises :: "effect list \<Rightarrow> string \<Rightarrow> string \<Rightarrow> string \<Rightarrow> exn option"
  local_segments :: "effect list \<Rightarrow> whisper_model \<Rightarrow> real list \<Rightarrow> config \<Rightarrow> exn + string list"
  api_text :: "effect list \<Rightarrow> 16 word list \<Rightarrow> nat \<Rightarrow> config \<Rightarrow> exn + string"

definition console_print :: "string \<Rightarrow> effect list \<Rightarrow> effect list" where
  "console_print message tr = tr @ [Console_print message]"

definition py_or :: "string option \<Rightarrow> string \<Rightarrow> string" where
  \<comment> \<open>\<open>a or b\<close> on an optional string: \<open>a\<close> unless it is \<open>None\<close> or empty\<close>
  "py_or a b = (case a of None \<Rightarrow> b | Some s \<Rightarrow> if s = [] then b else s)"

definition effective_sample_rate :: "config \<Rightarrow> nat" where
  \<comment> \<open>\<open>recording_options.get('sample_rate') or 16000\<close>\<close>
  "effective_sample_rate cfg =
     (case sample_rate cfg of None \<Rightarrow> 16000 | Some r \<Rightarrow> if r = 0 then 16000 else r)"

section \<open>transcription.py: the local model\<close>

definition new_WhisperModel ::
  "env \<Rightarrow> string \<Rightarrow> string \<Rightarrow> string \<Rightarrow> effect list \<Rightarrow> effect list \<times> (exn + whisper_model)" where
  "new_WhisperModel e name dev ct tr =
     (tr @ [WhisperModel_init name dev ct],
      case whisper_model_raises e tr name dev ct of
        Some ex \<Rightarrow> Inl ex
      | None \<Rightarrow> Inr (WhisperModel name dev ct))"

definition create_local_model ::
  "env \<Rightarrow> config \<Rightarrow> effect list \<Rightarrow> effect list \<times> (exn + whisper_model)" where
  "create_local_model e cfg tr0 =
     (let tr = console_print ''Creating local model...'' tr0;
          local_model_options = local_opts cfg;
          ct = compute_type local_model_options;
          mp = model_path local_model_options;
          (dev, tr) =
            (if ct = ''int8''
             then (''cpu'', console_print ''Using int8 quantization, forcing CPU usage.'' tr)
             else (device local_model_options, tr));
          (tr, attempt) =
            (case mp of
               None \<Rightarrow> new_WhisperModel e (model local_model_options) dev ct tr
             | Some path \<Rightarrow>
                 if path = [] then new_WhisperModel e (model local_model_options) dev ct tr
                 else new_WhisperModel e path dev ct
                        (console_print (''Loading model from: '' @ path) tr))
      in case attempt of
           Inr m \<Rightarrow> (console_print ''Local model created.'' tr, Inr m)
         | Inl ex \<Rightarrow>
             (let tr = console_print (''Error initializing WhisperModel: '' @ str_of_exn ex) tr;
                  tr = console_print ''Falling back to CPU.'' tr;
                  (tr, fallback) =
                    new_WhisperModel e (py_or mp (model local_model_options)) ''cpu'' ct tr
              in case fallback of
                   Inl ex2 \<Rightarrow> (tr, Inl ex2)
                 | Inr m \<Rightarrow> (console_print ''Local model created.'' tr, Inr m)))"

section \<open>transcription.py: the two backends\<close>

definition int16_to_float32 :: "16 word \<Rightarrow> real" where
  \<comment> \<open>\<open>astype(np.float32)\<close>: a 16-bit integer fits the 24-bit significand, so the value is kept\<close>
  "int16_to_float32 s = real_of_int (sint s)"

definition transcribe_local ::
  "env \<Rightarrow> config \<Rightarrow> effect list \<Rightarrow> 16 word list \<Rightarrow> whisper_model option
     \<Rightarrow> effect list \<times> (exn + string)" where
  "transcribe_local e cfg tr0 audio_data local_model =
     (let (tr, got) =
            (case local_model of
               None \<Rightarrow> create_local_model e cfg tr0
             | Some m \<Rightarrow> (tr0, Inr m))
      in case got of
           Inl ex \<Rightarrow> (tr, Inl ex)
         | Inr m \<Rightarrow>
             (let audio_data_float = map (\<lambda>s. int16_to_float32 s / 32768) audio_data;
                  response = local_segments e tr m audio_data_float cfg;
                  tr = tr @ [Local_transcribe m audio_data_float]
              in case response of
                   Inl ex \<Rightarrow> (tr, Inl ex)
                 | Inr segments \<Rightarrow> (tr, Inr (concat segments))))"

definition transcribe_api ::
  "env \<Rightarrow> config \<Rightarrow> effect list \<Rightarrow> 16 word list \<Rightarrow> effect list \<times> (exn + string)" where
  \<comment> \<open>building the client, encoding the samples as WAV at the configured rate and the
      request are one call to the outside: it answers \<open>response.text\<close> or raises\<close>
  "transcribe_api e cfg tr0 audio_data =
     (let rate = effective_sample_rate cfg;
          response = api_text e tr0 audio_data rate cfg
      in (tr0 @ [Api_transcribe audio_data rate], response))"

section \<open>transcription.py: voice commands\<close>

type_synonym handler = "env \<Rightarrow> effect list \<Rightarrow> string \<Rightarrow> effect list \<times> (exn + bool \<times> string)"

definition register_command ::
  "string \<Rightarrow> handler \<Rightarrow> (string \<times> handler) list \<Rightarrow> (string \<times> handler) list" where
  \<comment> \<open>\<open>COMMAND_HANDLERS[command_phrase] = func\<close>: a dict keeps the order of first insertion\<close>
  "register_command command_phrase func registry = AList.update command_phrase func registry"

fun ci_literal :: "string \<Rightarrow> string \<Rightarrow> nat option" where
  \<comment> \<open>a lowercase literal of the pattern under \<open>re.IGNORECASE\<close>, at the start of the text:
      the number of characters it takes\<close>
  "ci_literal [] s = Some 0"
| "ci_literal (p # ps) [] = None"
| "ci_literal (p # ps) (c # cs) =
     (if py_lower_char c = p then map_option Suc (ci_literal ps cs) else None)"

definition re_spaces :: "string \<Rightarrow> nat option" where
  \<comment> \<open>one or more whitespace characters before a letter: all the whitespace there is\<close>
  "re_spaces s = (let n = length (takeWhile py_isspace s) in if n = 0 then None else Some n)"

definition match_wiz_open_edge :: "string \<Rightarrow> nat option" where
  \<comment> \<open>the pattern \<open>wiz\<close>, whitespace, \<open>open\<close>, whitespace, \<open>edge\<close> at the start of the text:
      the length of the match\<close>
  "match_wiz_open_edge s =
     (case ci_literal ''wiz'' s of None \<Rightarrow> None | Some a \<Rightarrow>
      case re_spaces (drop a s) of None \<Rightarrow> None | Some b \<Rightarrow>
      case ci_literal ''open'' (drop (a + b) s) of None \<Rightarrow> None | Some c \<Rightarrow>
      case re_spaces (drop (a + b + c) s) of None \<Rightarrow> None | Some d \<Rightarrow>
      case ci_literal ''edge'' (drop (a + b + c + d) s) of None \<Rightarrow> None | Some f \<Rightarrow>
      Some (a + b + c + d + f))"

fun sub_wiz_open_edge :: "nat \<Rightarrow> string \<Rightarrow> string" where
  \<comment> \<open>\<open>pattern.sub('', s)\<close>, left to right; the number counts the characters of the current
      match still to be dropped\<close>
  "sub_wiz_open_edge k [] = []"
| "sub_wiz_open_edge k (c # cs) =
     (if 0 < k then sub_wiz_open_edge (k - 1) cs
      else case match_wiz_open_edge (c # cs) of
             Some n \<Rightarrow> sub_wiz_open_edge (n - 1) cs
           | None \<Rightarrow> c # sub_wiz_open_edge 0 cs)"

definition handle_open_edge :: handler where
  "handle_open_edge e tr0 transcription =
     (let tr = console_print ''Command detected: Opening Microsoft Edge'' tr0;
          launched = popen_outcome e tr ''start /WAIT microsoft-edge:'';
          tr = tr @ [Popen ''start /WAIT microsoft-edge:'']
      in case launched of
           Inr exit_status \<Rightarrow>
             (let modified_text = sub_wiz_open_edge 0 transcription
              in (tr, Inr (True, py_strip modified_text)))
         | Inl ex \<Rightarrow>
             (console_print (''Error executing 'open edge' command: '' @ str_of_exn ex) tr,
              Inr (False, transcription)))"

definition COMMAND_HANDLERS :: "(string \<times> handler) list" where
  \<comment> \<open>the registry after the module is loaded: one decorated handler\<close>
  "COMMAND_HANDLERS = register_command ''wiz open edge'' handle_open_edge []"

fun for_command_handlers ::
  "(string \<times> handler) list \<Rightarrow> string \<Rightarrow> env \<Rightarrow> effect list \<Rightarrow> string
     \<Rightarrow> effect list \<times> (exn + bool \<times> string)" where
  \<comment> \<open>the loop over \<open>COMMAND_HANDLERS.items()\<close>\<close>
  "for_command_handlers [] sanitized e tr transcription = (tr, Inr (False, transcription))"
| "for_command_handlers ((command_phrase, handler_func) # items) sanitized e tr transcription =
     (if py_in command_phrase sanitized then handler_func e tr transcription
      else for_command_handlers items sanitized e tr transcription)"

definition execute_commands ::
  "(string \<times> handler) list \<Rightarrow> env \<Rightarrow> effect list \<Rightarrow> string
     \<Rightarrow> effect list \<times> (exn + bool \<times> string)" where
  "execute_commands registry e tr transcription =
     (let sanitized = sanitize_text transcription
      in for_command_handlers registry sanitized e tr transcription)"

section \<open>transcription.py: post-processing and dispatch\<close>

definition post_process_transcription ::
  "(string \<times> handler) list \<Rightarrow> env \<Rightarrow> config \<Rightarrow> effect list \<Rightarrow> string
     \<Rightarrow> effect list \<times> (exn + string)" where
  "post_process_transcription registry e cfg tr0 transcription0 =
     (let transcription = py_strip transcription0;
          (tr, outcome) = execute_commands registry e tr0 transcription
      in case outcome of
           Inl ex \<Rightarrow> (tr, Inl ex)
         | Inr (command_executed, transcription) \<Rightarrow>
             (let pp = post_processing cfg;
                  transcription =
                    (if remove_trailing_period pp \<and> py_endswith transcription ''.''
                     then butlast transcription else transcription);
                  transcription =
                    (if add_trailing_space pp then transcription @ '' '' else transcription);
                  transcription =
                    (if remove_capitalization pp then py_lower transcription else transcription)
              in (tr, Inr transcription)))"

definition transcribe ::
  "(string \<times> handler) list \<Rightarrow> env \<Rightarrow> config \<Rightarrow> effect list \<Rightarrow> 16 word list option
     \<Rightarrow> whisper_model option \<Rightarrow> effect list \<times> (exn + string)" where
  "transcribe registry e cfg tr0 audio_data local_model =
     (case audio_data of
        None \<Rightarrow> (tr0, Inr [])
      | Some samples \<Rightarrow>
          (let (tr, outcome) =
                 (if use_api cfg then transcribe_api e cfg tr0 samples
                  else transcribe_local e cfg tr0 samples local_model)
           in case outcome of
                Inl ex \<Rightarrow> (tr, Inl ex)
              | Inr transcription \<Rightarrow> post_process_transcription registry e cfg tr transcription))"

fun is_backend_call :: "effect \<Rightarrow> bool" where
  "is_backend_call (Local_transcribe m a) = True"
| "is_backend_call (Api_transcribe a r) = True"
| "is_backend_call (WhisperModel_init n d c) = True"
| "is_backend_call _ = False"

definition backend_calls :: "effect list \<Rightarrow> nat" where
  "backend_calls tr = length (filter is_backend_call tr)"

subsection \<open>The post-processor as the specification words it\<close>

definition TextPostProcessor_steps :: "string \<Rightarrow> post_processing_options \<Rightarrow> string" where
  \<comment> \<open>steps 2 to 4: drop a final period; append a space; fold the case; each behind its flag\<close>
  "TextPostProcessor_steps step1 pp =
     (let step2 = (if remove_trailing_period pp \<and> step1 \<noteq> [] \<and> last step1 = CHR ''.''
                   then take (length step1 - 1) step1 else step1);
          step3 = (if add_trailing_space pp then step2 @ [CHR '' ''] else step2);
          step4 = (if remove_capitalization pp then map py_lower_char step3 else step3)
      in step4)"

definition TextPostProcessor_apply :: "string \<Rightarrow> post_processing_options \<Rightarrow> string" where
  \<comment> \<open>step 1, always: trim leading and trailing whitespace; then steps 2 to 4\<close>
  "TextPostProcessor_apply text pp = TextPostProcessor_steps (py_strip text) pp"

section \<open>main.py: the activation controller\<close>

text \<open>
  Modelled from the spec: the class \<open>ResultThread\<close> (module \<open>result_thread\<close>), of which
  \<open>main.py\<close> uses the constructor, \<open>start\<close>, \<open>isRunning\<close>, \<open>stop_recording\<close> and \<open>stop\<close>.
  A session is in one of the states Idle, Recording, Transcribing, Stopped; it is running
  while it records or transcribes; \<open>stop_recording\<close> ends the capture and goes on to the
  transcription; \<open>stop\<close> aborts a recording; the worker moves on by itself from Recording to
  Transcribing and from Transcribing to Stopped.
\<close>

datatype session_state = Idle | Recording | Transcribing | Stopped

definition ResultThread :: session_state where
  \<comment> \<open>Modelled from the spec: a session just constructed is Idle\<close>
  "ResultThread = Idle"

definition isRunning :: "session_state \<Rightarrow> bool" where
  \<comment> \<open>Modelled from the spec: active means Recording or Transcribing\<close>
  "isRunning th \<longleftrightarrow> th = Recording \<or> th = Transcribing"

definition start :: "session_state \<Rightarrow> session_state" where
  \<comment> \<open>Modelled from the spec: \<open>start()\<close> takes Idle to Recording\<close>
  "start th = (if th = Idle then Recording else th)"

definition stop_recording :: "session_state \<Rightarrow> session_state" where
  \<comment> \<open>Modelled from the spec: \<open>stopRecording()\<close> takes Recording to Transcribing\<close>
  "stop_recording th = (if th = Recording then Transcribing else th)"

definition stop :: "session_state \<Rightarrow> session_state" where
  \<comment> \<open>Modelled from the spec: \<open>cancel()\<close> takes Recording to Stopped, skipping the pipeline\<close>
  "stop th = (if th = Recording then Stopped else th)"

definition worker_step :: "session_state \<Rightarrow> session_state" where
  \<comment> \<open>Modelled from the spec: the progress a session's worker makes by itself\<close>
  "worker_step th =
     (if th = Recording then Transcribing else if th = Transcribing then Stopped else th)"

datatype ui_effect = Typewrite string | Play_beep | Key_listener_start

record app =
  recording_mode :: string
  hide_status_window :: bool
  noise_on_completion :: bool
  threads :: "session_state list"
  result_thread :: "nat option"
  ui :: "ui_effect list"

text \<open>
  \<open>threads\<close> holds every \<open>ResultThread\<close> object the application has created, in the order
  of creation; \<open>result_thread\<close> is the attribute \<open>self.result_thread\<close>, \<open>None\<close> or a
  reference into \<open>threads\<close>.
\<close>

definition initialize_components :: "string \<Rightarrow> bool \<Rightarrow> bool \<Rightarrow> app" where
  "initialize_components mode hide noise =
     \<lparr>recording_mode = mode, hide_status_window = hide, noise_on_completion = noise,
      threads = [], result_thread = None, ui = []\<rparr>"

definition session_running :: "app \<Rightarrow> bool" where
  \<comment> \<open>\<open>self.result_thread and self.result_thread.isRunning()\<close>\<close>
  "session_running a =
     (case result_thread a of
        None \<Rightarrow> False
      | Some i \<Rightarrow> i < length (threads a) \<and> isRunning (threads a ! i))"

definition call_result_thread :: "(session_state \<Rightarrow> session_state) \<Rightarrow> app \<Rightarrow> app" where
  \<comment> \<open>a method call on the object \<open>self.result_thread\<close> refers to\<close>
  "call_result_thread method a =
     (case result_thread a of
        None \<Rightarrow> a
      | Some i \<Rightarrow> a\<lparr>threads := (threads a)[i := method (threads a ! i)]\<rparr>)"

definition start_result_thread :: "app \<Rightarrow> app" where
  "start_result_thread a =
     (if session_running a then a
      else call_result_thread start
             (a\<lparr>threads := threads a @ [ResultThread],
                result_thread := Some (length (threads a))\<rparr>))"

definition stop_result_thread :: "app \<Rightarrow> app" where
  "stop_result_thread a = (if session_running a then call_result_thread stop a else a)"

definition on_activation :: "app \<Rightarrow> app" where
  "on_activation a =
     (if session_running a then
        (if recording_mode a = ''press_to_toggle'' then call_result_thread stop_recording a
         else if recording_mode a = ''continuous'' then stop_result_thread a
         else a)
      else start_result_thread a)"

definition on_deactivation :: "app \<Rightarrow> app" where
  "on_deactivation a =
     (if recording_mode a = ''hold_to_record'' then
        (if session_running a then call_result_thread stop_recording a else a)
      else a)"

definition on_transcription_complete :: "string \<Rightarrow> app \<Rightarrow> app" where
  "on_transcription_complete result a0 =
     (let a = a0\<lparr>ui := ui a0 @ [Typewrite result]\<rparr>;
          a = (if noise_on_completion a then a\<lparr>ui := ui a @ [Play_beep]\<rparr> else a)
      in if recording_mode a = ''continuous'' then start_result_thread a
         else a\<lparr>ui := ui a @ [Key_listener_start]\<rparr>)"

datatype event =
    Activate
  | Deactivate
  | Status_window_closed
  | Worker nat
  | Transcription_complete string

fun handle :: "event \<Rightarrow> app \<Rightarrow> app" where
  "handle Activate a = on_activation a"
| "handle Deactivate a = on_deactivation a"
| "handle Status_window_closed a = stop_result_thread a"
| "handle (Worker i) a =
     (if i < length (threads a) then a\<lparr>threads := (threads a)[i := worker_step (threads a ! i)]\<rparr>
      else a)"
| "handle (Transcription_complete result) a = on_transcription_complete result a"

definition run :: "event list \<Rightarrow> app \<Rightarrow> app" where
  \<comment> \<open>the events are handled one after the other, each handler to its end\<close>
  "run events a = fold handle events a"

definition active_sessions :: "app \<Rightarrow> nat" where
  "active_sessions a = length (filter isRunning (threads a))"

section \<open>Concrete environments, configurations and registries\<close>

definition quiet_env :: env where
  \<comment> \<open>nothing raises and the browser starts; the local backend hears two segments, the remote one a short greeting\<close>
  "quiet_env =
     \<lparr>popen_outcome = (\<lambda>tr cmd. Inr 0),
      whisper_model_raises = (\<lambda>tr name dev ct. None),
      local_segments = (\<lambda>tr m audio cfg. Inr ['' Hello'', '' world.'']),
      api_text = (\<lambda>tr audio rate cfg. Inr ''hi'')\<rparr>"

definition broken_env :: env where
  \<comment> \<open>every call to the outside raises\<close>
  "broken_env =
     \<lparr>popen_outcome =
        (\<lambda>tr cmd. Inl (Exception ''[WinError 2] The system cannot find the file specified'')),
      whisper_model_raises = (\<lambda>tr name dev ct. Some (Exception ''CUDA driver version is insufficient'')),
      local_segments = (\<lambda>tr m audio cfg. Inl (Exception ''inference failed'')),
      api_text = (\<lambda>tr audio rate cfg. Inl (Exception ''Connection error.''))\<rparr>"


definition example_config :: "bool \<Rightarrow> bool \<Rightarrow> config" where
  \<comment> \<open>a configuration with the given backend choice and all three post-processing flags alike\<close>
  "example_config api flag =
     \<lparr>use_api = api,
      local_opts = \<lparr>compute_type = ''int8'', model_path = None, device = ''cuda'',
                    model = ''base'', condition_on_previous_text = True, vad_filter = False\<rparr>,
      common_opts = \<lparr>language = None, initial_prompt = None, temperature = 0\<rparr>,
      api_opts = \<lparr>base_url = None, api_model = ''whisper-1''\<rparr>,
      sample_rate = None,
      post_processing = \<lparr>remove_trailing_period = flag, add_trailing_space = flag,
                         remove_capitalization = flag\<rparr>\<rparr>"

definition handle_wiz_open :: handler where
  \<comment> \<open>a second handler, for registries with more than one entry\<close>
  "handle_wiz_open e tr transcription = (console_print ''Command detected: wiz open'' tr, Inr (True, []))"


fun model_devices :: "effect list \<Rightarrow> string list" where
  \<comment> \<open>the device of every \<open>WhisperModel\<close> construction in a trace\<close>
  "model_devices [] = []"
| "model_devices (WhisperModel_init name dev ct # tr) = dev # model_devices tr"
| "model_devices (x # tr) = model_devices tr"

definition only_current_runs :: "app \<Rightarrow> bool" where
  \<comment> \<open>the invariant of the controller: a running session is the one \<open>result_thread\<close> refers to\<close>
  "only_current_runs a \<longleftrightarrow>
     (\<forall>i < length (threads a). isRunning (threads a ! i) \<longrightarrow> result_thread a = Some i)"

definition word_ok :: "string \<Rightarrow> bool" where
  \<comment> \<open>what \<open>str.split()\<close> returns: non-empty words without whitespace\<close>
  "word_ok x \<longleftrightarrow> x \<noteq> [] \<and> (\<forall>c \<in> set x. \<not> py_isspace c)"

definition plain :: "char \<Rightarrow> bool" where
  \<comment> \<open>the characters sanitized text is made of\<close>
  "plain c \<longleftrightarrow> \<not> py_isupper c \<and> (re_word c \<or> py_isspace c)"

definition binary32 :: "real \<Rightarrow> bool" where
  \<comment> \<open>the finite values of IEEE 754 single precision (\<open>np.float32\<close>): a significand of at
      most 24 bits times a power of two\<close>
  "binary32 x \<longleftrightarrow>
     (\<exists>m e :: int. \<bar>m\<bar> < 2 ^ 24 \<and> - 149 \<le> e \<and> e \<le> 104 \<and>
        x = real_of_int m * 2 powr real_of_int e)"

section \<open>Sanitized text\<close>

lemma cp_char_of: "cp (char_of n) = n mod 256"
  by (simp add: cp_def)

lemma lower_not_upper: "\<not> py_isupper (py_lower_char c)"
proof (cases "py_isupper c")
  case False
  then show ?thesis by (simp add: py_lower_char_def)
next
  case True
  then have "cp c + 32 < 256" by (auto simp: py_isupper_def)
  then have "cp (char_of (cp c + 32)) = cp c + 32" by (simp add: cp_char_of)
  then show ?thesis using True by (auto simp: py_lower_char_def py_isupper_def)
qed

lemma lower_fixed: "\<not> py_isupper c \<Longrightarrow> py_lower_char c = c"
  by (simp add: py_lower_char_def)

lemma space_is_space: "py_isspace CHR '' ''"
  by (simp add: py_isspace_def cp_def)

lemma space_not_upper: "\<not> py_isupper CHR '' ''"
  by (simp add: py_isupper_def cp_def)

lemma plain_space: "plain CHR '' ''"
  by (simp add: plain_def space_is_space space_not_upper)

lemma plain_after_sub: "c \<in> set (re_sub_nonword (py_lower s)) \<Longrightarrow> plain c"
  by (auto simp: re_sub_nonword_def py_lower_def plain_def lower_not_upper space_is_space
      space_not_upper split: if_splits)

lemma split_from_words:
  "\<forall>c \<in> set w. \<not> py_isspace c \<Longrightarrow>
   \<forall>x \<in> set (split_from w s). word_ok x \<and> set x \<subseteq> set w \<union> set s"
proof (induction s arbitrary: w)
  case Nil
  then show ?case by (simp add: word_ok_def)
next
  case (Cons c cs)
  show ?case
  proof (cases "py_isspace c")
    case True
    have rest: "\<forall>x \<in> set (split_from [] cs). word_ok x \<and> set x \<subseteq> set w \<union> set (c # cs)"
      using Cons.IH [of "[]"] by auto
    show ?thesis
    proof (cases "w = []")
      case True
      then show ?thesis using \<open>py_isspace c\<close> rest by simp
    next
      case False
      then have "word_ok (rev w)" using Cons.prems by (simp add: word_ok_def)
      then show ?thesis using \<open>py_isspace c\<close> False rest by auto
    qed
  next
    case False
    then have "\<forall>x \<in> set (split_from (c # w) cs). word_ok x \<and> set x \<subseteq> set (c # w) \<union> set cs"
      using Cons.prems by (intro Cons.IH) simp
    then show ?thesis using False by auto
  qed
qed

lemma py_split_words:
  "x \<in> set (py_split s) \<Longrightarrow> word_ok x \<and> set x \<subseteq> set s"
  using split_from_words [of "[]" s] by (simp add: py_split_def)

lemma set_py_join: "set (py_join sep ws) \<subseteq> set sep \<union> \<Union> (set ` set ws)"
  by (induction sep ws rule: py_join.induct) auto

lemma split_from_word:
  "\<forall>c \<in> set x. \<not> py_isspace c \<Longrightarrow> split_from w (x @ rest) = split_from (rev x @ w) rest"
proof (induction x arbitrary: w)
  case Nil
  then show ?case by simp
next
  case (Cons a x)
  then have "split_from w ((a # x) @ rest) = split_from (a # w) (x @ rest)" by simp
  also have "\<dots> = split_from (rev x @ a # w) rest" using Cons by simp
  finally show ?case by simp
qed

lemma split_join:
  "\<forall>x \<in> set ws. word_ok x \<Longrightarrow> split_from [] (py_join '' '' ws) = ws"
proof (induction "'' ''" ws rule: py_join.induct)
  case 1
  then show ?case by simp
next
  case (2 w)
  then show ?case using split_from_word [of w "[]" "[]"] by (simp add: word_ok_def)
next
  case (3 w v ws)
  have w: "word_ok w" using "3.prems" by simp
  have "split_from [] (w @ '' '' @ py_join '' '' (v # ws))
          = split_from (rev w) (CHR '' '' # py_join '' '' (v # ws))"
    using w split_from_word [of w "[]"] by (simp add: word_ok_def)
  also have "\<dots> = w # split_from [] (py_join '' '' (v # ws))"
    using w by (simp add: space_is_space word_ok_def)
  also have "\<dots> = w # v # ws"
    using 3 by simp
  finally show ?case by simp
qed

lemma sanitize_text_plain: "c \<in> set (sanitize_text t) \<Longrightarrow> plain c"
proof -
  assume "c \<in> set (sanitize_text t)"
  then have "c = CHR '' '' \<or> (\<exists>x \<in> set (py_split (re_sub_nonword (py_lower t))). c \<in> set x)"
    using set_py_join [of "'' ''" "py_split (re_sub_nonword (py_lower t))"]
    by (auto simp: sanitize_text_def)
  then show "plain c"
    using py_split_words plain_after_sub plain_space by blast
qed

lemma sanitize_text_idempotent: "sanitize_text (sanitize_text t) = sanitize_text t"
proof -
  let ?ws = "py_split (re_sub_nonword (py_lower t))"
  have plain: "\<forall>c \<in> set (sanitize_text t). plain c"
    using sanitize_text_plain by blast
  have "py_lower (sanitize_text t) = sanitize_text t"
    unfolding py_lower_def using plain by (intro map_idI) (simp add: plain_def lower_fixed)
  moreover have "re_sub_nonword (sanitize_text t) = sanitize_text t"
    unfolding re_sub_nonword_def using plain by (intro map_idI) (simp add: plain_def)
  moreover have "py_split (sanitize_text t) = ?ws"
    using split_join [of ?ws] py_split_words [of _ "re_sub_nonword (py_lower t)"]
    by (simp add: sanitize_text_def py_split_def)
  ultimately show ?thesis
    by (simp add: sanitize_text_def)
qed

lemma sanitize_text_no_uppercase: "c \<in> set (sanitize_text t) \<Longrightarrow> \<not> py_isupper c"
  using sanitize_text_plain [of c t] by (simp add: plain_def)

text \<open>
  Claim C10. On the code points of the model, U+0000 to U+00FF, sanitizing is idempotent
  and leaves no uppercase letter (the two lemmas above); beyond that range \<open>str.lower\<close>
  leaves the uppercase letters that have no lowercase form as they are. Sanitizing does
  not remove all punctuation: the underscore belongs to the word class of the
  regular expression, so it stays. At the text \<open>Wiz_Open, Edge!\<close> the comma and the
  exclamation mark go and the underscore, a punctuation character, is still there.
\<close>

theorem sanitize_text_keeps_underscore:
  "sanitize_text ''Wiz_Open, Edge!'' = ''wiz_open edge'' \<and>
   filter py_punctuation (sanitize_text ''Wiz_Open, Edge!'') = ''_''"
  by code_simp

section \<open>Command matching\<close>

lemma py_in_iff: "py_in p s \<longleftrightarrow> (\<exists>before after. s = before @ p @ after)"
proof -
  have "py_in p s \<longleftrightarrow> sublist p s"
    by (induction s) (simp_all add: sublist_Cons_right)
  then show ?thesis by (simp add: sublist_def)
qed

lemma for_command_handlers_unmatched:
  "\<forall>(p, h) \<in> set registry. \<not> py_in p sanitized \<Longrightarrow>
   for_command_handlers registry sanitized e tr transcription = (tr, Inr (False, transcription))"
  by (induction registry) auto

lemma for_command_handlers_first:
  assumes "\<forall>(p, h) \<in> set before. \<not> py_in p sanitized" and "py_in phrase sanitized"
  shows "for_command_handlers (before @ (phrase, handler_func) # after) sanitized e tr transcription
           = handler_func e tr transcription"
  using assms by (induction before) auto

lemma execute_commands_unmatched:
  "\<forall>(p, h) \<in> set registry. \<not> py_in p (sanitize_text transcription) \<Longrightarrow>
   execute_commands registry e tr transcription = (tr, Inr (False, transcription))"
  by (simp add: execute_commands_def for_command_handlers_unmatched)


text \<open>
  Claim C4. In every registry, the entry that fires is the first one, in the order of
  registration, whose phrase occurs in the sanitized text: the outcome and the trace of
  \<open>execute_commands\<close> are those of that entry's handler, called once on the original
  text, and no other handler runs. With \<open>wiz open edge\<close> registered before \<open>wiz open\<close>,
  a text whose sanitized form contains the first phrase (and so the second) runs the handler
  of \<open>wiz open edge\<close> only.
\<close>

theorem execute_commands_first_match:
  "((\<forall>(p, h) \<in> set before. \<not> py_in p (sanitize_text transcription)) \<and>
    py_in phrase (sanitize_text transcription) \<longrightarrow>
      execute_commands (before @ (phrase, handler_func) # after) e tr transcription
        = handler_func e tr transcription) \<and>
   (py_in ''wiz open edge'' (sanitize_text transcription) \<longrightarrow>
      execute_commands (register_command ''wiz open'' other COMMAND_HANDLERS) e tr transcription
        = handle_open_edge e tr transcription)"
proof -
  have reg: "register_command ''wiz open'' other COMMAND_HANDLERS
               = [] @ (''wiz open edge'', handle_open_edge) # [(''wiz open'', other)]"
    by (simp add: register_command_def COMMAND_HANDLERS_def)
  show ?thesis
    unfolding reg unfolding execute_commands_def Let_def
    by (simp add: for_command_handlers_first del: append.simps)
qed

theorem execute_commands_first_match_witness:
  "py_in ''wiz open edge'' (sanitize_text ''Wiz open Edge, please.'') \<and>
   py_in ''wiz open'' (sanitize_text ''Wiz open Edge, please.'') \<and>
   execute_commands (register_command ''wiz open'' handle_wiz_open COMMAND_HANDLERS) quiet_env []
       ''Wiz open Edge, please.''
     = ([Console_print ''Command detected: Opening Microsoft Edge'',
         Popen ''start /WAIT microsoft-edge:''], Inr (True, '', please.''))"
proof -
  have both: "py_in ''wiz open edge'' (sanitize_text ''Wiz open Edge, please.'')"
    "py_in ''wiz open'' (sanitize_text ''Wiz open Edge, please.'')"
    by code_simp+
  have one: "handle_open_edge quiet_env [] ''Wiz open Edge, please.''
       = ([Console_print ''Command detected: Opening Microsoft Edge'',
         Popen ''start /WAIT microsoft-edge:''], Inr (True, '', please.''))"
    by code_simp
  from execute_commands_first_match
         [of "[]" "''Wiz open Edge, please.''" "''wiz open edge''" handle_open_edge
             "[(''wiz open'', handle_wiz_open)]" quiet_env "[]" handle_wiz_open] both one
  show ?thesis by simp
qed

text \<open>
  Claim C5. When no registered phrase occurs in the sanitized text, \<open>execute_commands\<close>
  returns \<open>False\<close> with the text it was given, character for character, and touches
  nothing outside; the result is a string, which is what post-processing takes.
\<close>

theorem execute_commands_no_match:
  "\<forall>(p, h) \<in> set registry. \<not> py_in p (sanitize_text transcription) \<Longrightarrow>
   execute_commands registry e tr transcription = (tr, Inr (False, transcription))"
  by (rule execute_commands_unmatched)

theorem execute_commands_no_match_witness:
  "\<not> py_in ''wiz open edge'' (sanitize_text ''Hello, world.'') \<and>
   execute_commands COMMAND_HANDLERS quiet_env [] ''Hello, world.''
     = ([], Inr (False, ''Hello, world.''))"
proof -
  have unmatched: "\<forall>(p, h) \<in> set COMMAND_HANDLERS. \<not> py_in p (sanitize_text ''Hello, world.'')"
    by code_simp
  have phrase: "\<not> py_in ''wiz open edge'' (sanitize_text ''Hello, world.'')"
    by code_simp
  from phrase execute_commands_no_match [OF unmatched, of quiet_env "[]"]
  show ?thesis by simp
qed

section \<open>Post-processing\<close>

lemma butlast_take: "butlast s = take (length s - 1) s"
  by (simp add: butlast_conv_take)

lemma py_endswith_period: "py_endswith s ''.'' \<longleftrightarrow> s \<noteq> [] \<and> last s = CHR ''.''"
  by (auto simp: py_endswith_def suffix_def) (metis append_butlast_last_id)

lemma post_process_after_commands:
  "execute_commands registry e tr (py_strip transcription) = (tr', Inr (executed, returned)) \<Longrightarrow>
   post_process_transcription registry e cfg tr transcription
     = (tr', Inr (TextPostProcessor_steps returned (post_processing cfg)))"
  by (simp add: post_process_transcription_def TextPostProcessor_steps_def Let_def
      py_endswith_period butlast_take py_lower_def)

text \<open>
  Claim C3, as amended. \<open>post_process_transcription\<close> trims the text and then runs command
  detection on it before anything else. When no registered phrase occurs in the sanitized
  trimmed text, the result is the trimmed text with a final period dropped (if
  \<open>remove_trailing_period\<close>), then a space appended (if \<open>add_trailing_space\<close>), then
  lowercased (if \<open>remove_capitalization\<close>), in that order. When a command fires, the same
  three steps, in the same order, are applied to the text its handler returns. The text
  \<open>Hello.\<close> with the three flags set gives \<open>hello\<close> followed by a space.
\<close>

theorem post_process_order:
  "((\<forall>(p, h) \<in> set registry. \<not> py_in p (sanitize_text (py_strip transcription))) \<longrightarrow>
      post_process_transcription registry e cfg tr transcription
        = (tr, Inr (TextPostProcessor_apply transcription (post_processing cfg)))) \<and>
   (execute_commands registry e tr (py_strip transcription) = (tr', Inr (executed, returned)) \<longrightarrow>
      post_process_transcription registry e cfg tr transcription
        = (tr', Inr (TextPostProcessor_steps returned (post_processing cfg)))) \<and>
   post_process_transcription COMMAND_HANDLERS e
       (cfg\<lparr>post_processing := \<lparr>remove_trailing_period = True, add_trailing_space = True,
                                 remove_capitalization = True\<rparr>\<rparr>) tr ''Hello.''
     = (tr, Inr ''hello '')"
proof -
  have hello: "\<forall>(p, h) \<in> set COMMAND_HANDLERS. \<not> py_in p (sanitize_text (py_strip ''Hello.''))"
    by code_simp
  have hello_value: "TextPostProcessor_apply ''Hello.''
      \<lparr>remove_trailing_period = True, add_trailing_space = True, remove_capitalization = True\<rparr>
      = ''hello ''"
    by code_simp
  have third: "post_process_transcription COMMAND_HANDLERS e
       (cfg\<lparr>post_processing := \<lparr>remove_trailing_period = True, add_trailing_space = True,
                                 remove_capitalization = True\<rparr>\<rparr>) tr ''Hello.''
     = (tr, Inr ''hello '')"
    using hello_value
    by (simp add: post_process_after_commands [OF execute_commands_unmatched [OF hello]]
        TextPostProcessor_apply_def)
  have first: "post_process_transcription registry e cfg tr transcription
        = (tr, Inr (TextPostProcessor_apply transcription (post_processing cfg)))"
    if "\<forall>(p, h) \<in> set registry. \<not> py_in p (sanitize_text (py_strip transcription))"
    by (simp add: post_process_after_commands [OF execute_commands_unmatched [OF that]]
        TextPostProcessor_apply_def)
  show ?thesis
    using first third post_process_after_commands by blast
qed

theorem post_process_order_witness:
  "\<not> py_in ''wiz open edge'' (sanitize_text (py_strip ''  Good morning.  '')) \<and>
   post_process_transcription COMMAND_HANDLERS quiet_env (example_config True True) []
       ''  Good morning.  ''
     = ([], Inr ''good morning '') \<and>
   execute_commands COMMAND_HANDLERS quiet_env [] (py_strip '' Wiz open edge. '')
     = ([Console_print ''Command detected: Opening Microsoft Edge'',
         Popen ''start /WAIT microsoft-edge:''], Inr (True, ''.'')) \<and>
   post_process_transcription COMMAND_HANDLERS quiet_env (example_config True True) []
       '' Wiz open edge. ''
     = ([Console_print ''Command detected: Opening Microsoft Edge'',
         Popen ''start /WAIT microsoft-edge:''], Inr '' '')"
proof -
  have h1: "\<forall>(p, h) \<in> set COMMAND_HANDLERS.
              \<not> py_in p (sanitize_text (py_strip ''  Good morning.  ''))"
    by code_simp
  have v1: "TextPostProcessor_apply ''  Good morning.  '' (post_processing (example_config True True))
              = ''good morning ''"
    by code_simp
  have h2: "execute_commands COMMAND_HANDLERS quiet_env [] (py_strip '' Wiz open edge. '')
     = ([Console_print ''Command detected: Opening Microsoft Edge'',
         Popen ''start /WAIT microsoft-edge:''], Inr (True, ''.''))"
    by code_simp
  have v2: "TextPostProcessor_steps ''.'' (post_processing (example_config True True)) = '' ''"
    by code_simp
  note order = post_process_order [of COMMAND_HANDLERS _ quiet_env "example_config True True" "[]"]
  from order [of "''  Good morning.  ''"] h1 v1
  have a: "post_process_transcription COMMAND_HANDLERS quiet_env (example_config True True) []
       ''  Good morning.  ''
     = ([], Inr ''good morning '')" by simp
  from order [of "'' Wiz open edge. ''" "[Console_print ''Command detected: Opening Microsoft Edge'',
         Popen ''start /WAIT microsoft-edge:'']" True "''.''"] h2 v2
  have b: "post_process_transcription COMMAND_HANDLERS quiet_env (example_config True True) []
       '' Wiz open edge. ''
     = ([Console_print ''Command detected: Opening Microsoft Edge'',
         Popen ''start /WAIT microsoft-edge:''], Inr '' '')" by simp
  have h0: "\<not> py_in ''wiz open edge'' (sanitize_text (py_strip ''  Good morning.  ''))"
    by code_simp
  from h0 a h2 b show ?thesis by blast
qed

text \<open>
  The claim as first stated, the four steps applied to every text, fails where a command
  fires: for \<open>Wiz open edge.\<close> between two spaces and the three flags set, the four steps
  alone give \<open>wiz open edge\<close> and a space, and the program gives a single space.
\<close>

theorem command_text_departs_from_pipeline:
  "snd (post_process_transcription COMMAND_HANDLERS quiet_env (example_config True True) []
          '' Wiz open edge. '')
     = Inr '' '' \<and>
   TextPostProcessor_apply '' Wiz open edge. '' (post_processing (example_config True True))
     = ''wiz open edge '' \<and>
   snd (post_process_transcription COMMAND_HANDLERS quiet_env (example_config True True) []
          '' Wiz open edge. '')
     \<noteq> Inr (TextPostProcessor_apply '' Wiz open edge. ''
              (post_processing (example_config True True)))"
  by code_simp




section \<open>The dispatch\<close>

lemma backend_calls_append [simp]: "backend_calls (xs @ ys) = backend_calls xs + backend_calls ys"
  by (simp add: backend_calls_def)









text \<open>
  Claim C8, as amended. \<open>transcribe\<close> has no handler of its own: when the selected backend
  raises, the exception leaves the dispatch as it is, after the backend call and before any
  post-processing. Turning it into an empty result is left to the caller.
\<close>

theorem backend_exception_propagates:
  "(use_api cfg \<and> api_text e tr samples (effective_sample_rate cfg) cfg = Inl ex \<longrightarrow>
      transcribe registry e cfg tr (Some samples) local_model
        = (tr @ [Api_transcribe samples (effective_sample_rate cfg)], Inl ex)) \<and>
   (\<not> use_api cfg \<and>
    local_segments e tr m (map (\<lambda>s. int16_to_float32 s / 32768) samples) cfg = Inl ex \<longrightarrow>
      transcribe registry e cfg tr (Some samples) (Some m)
        = (tr @ [Local_transcribe m (map (\<lambda>s. int16_to_float32 s / 32768) samples)], Inl ex))"
  by (simp add: transcribe_def transcribe_api_def transcribe_local_def Let_def)

theorem backend_exception_propagates_witness:
  "transcribe COMMAND_HANDLERS broken_env (example_config True True) [] (Some [1, 2, 3]) None
     = ([Api_transcribe [1, 2, 3] 16000], Inl (Exception ''Connection error.'')) \<and>
   transcribe COMMAND_HANDLERS broken_env (example_config False True) [] (Some [1, 2, 3])
       (Some (WhisperModel ''base'' ''cpu'' ''int8''))
     = ([Local_transcribe (WhisperModel ''base'' ''cpu'' ''int8'')
           [1 / 32768, 2 / 32768, 3 / 32768]],
        Inl (Exception ''inference failed''))"
proof -
  have a: "use_api (example_config True True) \<and>
     api_text broken_env [] [1, 2, 3] (effective_sample_rate (example_config True True))
       (example_config True True) = Inl (Exception ''Connection error.'')"
    by (simp add: example_config_def broken_env_def)
  have b: "\<not> use_api (example_config False True) \<and>
     local_segments broken_env [] (WhisperModel ''base'' ''cpu'' ''int8'')
       (map (\<lambda>s. int16_to_float32 s / 32768) [1, 2, 3]) (example_config False True)
       = Inl (Exception ''inference failed'')"
    by (simp add: example_config_def broken_env_def)
  have r: "effective_sample_rate (example_config True True) = 16000"
    by (simp add: example_config_def effective_sample_rate_def)
  have f: "map (\<lambda>s. int16_to_float32 s / 32768) [1, 2, 3] = [1 / 32768, 2 / 32768, 3 / 32768]"
    by (simp add: int16_to_float32_def)
  from backend_exception_propagates
         [of "example_config True True" broken_env "[]" "[1, 2, 3]"
             "Exception ''Connection error.''" COMMAND_HANDLERS None] a r
  have one: "transcribe COMMAND_HANDLERS broken_env (example_config True True) []
       (Some [1, 2, 3]) None
     = ([Api_transcribe [1, 2, 3] 16000], Inl (Exception ''Connection error.''))"
    by simp
  from backend_exception_propagates
         [of "example_config False True" broken_env "[]" "[1, 2, 3]" _ COMMAND_HANDLERS _
             "WhisperModel ''base'' ''cpu'' ''int8''"] b f
  have two: "transcribe COMMAND_HANDLERS broken_env (example_config False True) []
       (Some [1, 2, 3]) (Some (WhisperModel ''base'' ''cpu'' ''int8''))
     = ([Local_transcribe (WhisperModel ''base'' ''cpu'' ''int8'')
           [1 / 32768, 2 / 32768, 3 / 32768]],
        Inl (Exception ''inference failed''))"
    by simp
  from one two show ?thesis by blast
qed

text \<open>
  The claim as first stated has the dispatch deliver the empty string; with a remote backend
  that raises, the dispatch delivers the exception.
\<close>

theorem dispatch_does_not_catch:
  "snd (transcribe COMMAND_HANDLERS broken_env (example_config True True) [] (Some [1, 2, 3]) None)
     = Inl (Exception ''Connection error.'') \<and>
   snd (transcribe COMMAND_HANDLERS broken_env (example_config True True) [] (Some [1, 2, 3]) None)
     \<noteq> Inr ''''"
  by (simp add: transcribe_def transcribe_api_def example_config_def broken_env_def)

section \<open>The local backend\<close>

lemma sint16_bounds: "- 32768 \<le> sint (s :: 16 word) \<and> sint s < 32768"
  using sint_ge [of s] sint_lt [of s] by simp

lemma int16_is_binary32: "binary32 (int16_to_float32 s)"
proof -
  have "\<bar>sint s\<bar> < 2 ^ 24 \<and> - 149 \<le> (0::int) \<and> (0::int) \<le> 104 \<and>
        real_of_int (sint s) = real_of_int (sint s) * 2 powr real_of_int 0"
    using sint16_bounds [of s] by (simp add: abs_if)
  then show ?thesis
    unfolding binary32_def int16_to_float32_def by blast
qed

lemma scaled_is_binary32: "binary32 (int16_to_float32 s / 32768)"
proof -
  have "(2::real) powr real_of_int (- 15) = 1 / 32768"
    by (simp add: powr_minus_divide)
  then have "\<bar>sint s\<bar> < 2 ^ 24 \<and> - 149 \<le> (- 15::int) \<and> (- 15::int) \<le> 104 \<and>
        real_of_int (sint s) / 32768 = real_of_int (sint s) * 2 powr real_of_int (- 15)"
    using sint16_bounds [of s] by (simp add: abs_if)
  then show ?thesis
    unfolding binary32_def int16_to_float32_def by blast
qed

text \<open>
  Claim C7. The audio the local model receives is the buffer with every 16-bit sample \<open>s\<close>
  replaced by \<open>s / 32768\<close>. Both the sample and the quotient are single-precision values,
  so neither the conversion nor the division rounds: the value passed on is the exact
  quotient. The sample 32767 gives 32767/32768, well within the single-precision epsilon of that quotient, and
  the sample -32768 gives exactly -1.
\<close>

theorem local_backend_sample_scaling:
  "transcribe_local e cfg tr audio_data (Some m)
     = (tr @ [Local_transcribe m (map (\<lambda>s. real_of_int (sint s) / 32768) audio_data)],
        map_sum id concat
          (local_segments e tr m (map (\<lambda>s. real_of_int (sint s) / 32768) audio_data) cfg)) \<and>
   (create_local_model e cfg tr = (tr', Inr m) \<longrightarrow>
      fst (transcribe_local e cfg tr audio_data None)
        = tr' @ [Local_transcribe m (map (\<lambda>s. real_of_int (sint s) / 32768) audio_data)]) \<and>
   binary32 (int16_to_float32 s) \<and> binary32 (int16_to_float32 s / 32768) \<and>
   int16_to_float32 s / 32768 = real_of_int (sint s) / 32768 \<and>
   \<bar>int16_to_float32 32767 / 32768 - 32767 / 32768\<bar> \<le> 1 / 2 ^ 23 \<and>
   int16_to_float32 (- 32768) / 32768 = - 1"
proof -
  have a: "transcribe_local e cfg tr audio_data (Some m)
     = (tr @ [Local_transcribe m (map (\<lambda>s. real_of_int (sint s) / 32768) audio_data)],
        map_sum id concat
          (local_segments e tr m (map (\<lambda>s. real_of_int (sint s) / 32768) audio_data) cfg))"
    by (simp add: transcribe_local_def int16_to_float32_def Let_def split: sum.splits)
  have b: "fst (transcribe_local e cfg tr audio_data None)
        = tr' @ [Local_transcribe m (map (\<lambda>s. real_of_int (sint s) / 32768) audio_data)]"
    if "create_local_model e cfg tr = (tr', Inr m)"
    using that by (simp add: transcribe_local_def int16_to_float32_def Let_def split: sum.splits)
  have c: "int16_to_float32 32767 / 32768 = 32767 / 32768"
    by (simp add: int16_to_float32_def)
  have d: "int16_to_float32 (- 32768) / 32768 = - 1"
    by (simp add: int16_to_float32_def)
  show ?thesis
    using a b c d int16_is_binary32 scaled_is_binary32
    by (simp add: int16_to_float32_def)
qed

theorem local_backend_sample_scaling_witness:
  "create_local_model quiet_env (example_config False False) []
     = ([Console_print ''Creating local model...'',
         Console_print ''Using int8 quantization, forcing CPU usage.'',
         WhisperModel_init ''base'' ''cpu'' ''int8'',
         Console_print ''Local model created.''], Inr (WhisperModel ''base'' ''cpu'' ''int8'')) \<and>
   fst (transcribe_local quiet_env (example_config False False) [] [32767, - 32768, 0, 1] None)
     = [Console_print ''Creating local model...'',
         Console_print ''Using int8 quantization, forcing CPU usage.'',
         WhisperModel_init ''base'' ''cpu'' ''int8'',
         Console_print ''Local model created.'',
         Local_transcribe (WhisperModel ''base'' ''cpu'' ''int8'')
           [32767 / 32768, - 1, 0, 1 / 32768]]"
proof -
  have made: "create_local_model quiet_env (example_config False False) []
     = ([Console_print ''Creating local model...'',
         Console_print ''Using int8 quantization, forcing CPU usage.'',
         WhisperModel_init ''base'' ''cpu'' ''int8'',
         Console_print ''Local model created.''], Inr (WhisperModel ''base'' ''cpu'' ''int8''))"
    by (simp add: create_local_model_def new_WhisperModel_def console_print_def
        example_config_def quiet_env_def py_or_def Let_def)
  have scaled: "map (\<lambda>s :: 16 word. real_of_int (sint s) / 32768) [32767, - 32768, 0, 1]
                  = [32767 / 32768, - 1, 0, 1 / 32768]"
    by simp
  from local_backend_sample_scaling
         [of quiet_env "example_config False False" "[]" "[32767, - 32768, 0, 1]"] made scaled
  show ?thesis by simp
qed

text \<open>
  Claim C9. With \<open>compute_type\<close> equal to \<open>int8\<close>, every construction of a model that
  \<open>create_local_model\<close> attempts, the first one and the fallback, is on the device \<open>cpu\<close>,
  and so is the model it returns; the device of the configuration is not read.
\<close>

theorem int8_forces_cpu:
  assumes "compute_type (local_opts cfg) = ''int8''"
  shows "set (model_devices (drop (length tr) (fst (create_local_model e cfg tr)))) = {''cpu''} \<and>
         (\<forall>m. snd (create_local_model e cfg tr) = Inr m \<longrightarrow>
                (\<exists>name. m = WhisperModel name ''cpu'' ''int8''))"
  using assms
  by (auto simp: create_local_model_def new_WhisperModel_def console_print_def Let_def
      split: option.splits sum.splits)

theorem int8_forces_cpu_witness:
  "compute_type (local_opts (example_config False True)) = ''int8'' \<and>
   device (local_opts (example_config False True)) = ''cuda'' \<and>
   model_devices (fst (create_local_model broken_env (example_config False True) []))
     = [''cpu'', ''cpu''] \<and>
   snd (create_local_model quiet_env (example_config False True) [])
     = Inr (WhisperModel ''base'' ''cpu'' ''int8'')"
proof -
  have int8: "compute_type (local_opts (example_config False True)) = ''int8''"
    by (simp add: example_config_def)
  have cuda: "device (local_opts (example_config False True)) = ''cuda''"
    by (simp add: example_config_def)
  have twice: "model_devices (fst (create_local_model broken_env (example_config False True) []))
     = [''cpu'', ''cpu'']"
    by (simp add: create_local_model_def new_WhisperModel_def console_print_def
        example_config_def broken_env_def py_or_def Let_def)
  have made: "snd (create_local_model quiet_env (example_config False True) [])
     = Inr (WhisperModel ''base'' ''cpu'' ''int8'')"
    by (simp add: create_local_model_def new_WhisperModel_def console_print_def
        example_config_def quiet_env_def py_or_def Let_def)
  from int8_forces_cpu [OF int8, of "[]" broken_env] int8_forces_cpu [OF int8, of "[]" quiet_env]
    int8 cuda twice made
  show ?thesis by simp
qed

section \<open>The controller keeps at most one session running\<close>

lemma only_current_runs_call:
  assumes "only_current_runs a"
  shows "only_current_runs (call_result_thread f a)"
proof (cases "result_thread a")
  case None
  then show ?thesis using assms by (simp add: call_result_thread_def)
next
  case (Some j)
  have "result_thread a = Some i"
    if "i < length (threads a)" and "isRunning ((threads a)[j := f (threads a ! j)] ! i)" for i
  proof (cases "i = j")
    case True
    then show ?thesis using Some by simp
  next
    case False
    then have "isRunning (threads a ! i)" using that by simp
    then show ?thesis using assms that by (simp add: only_current_runs_def)
  qed
  then show ?thesis using Some by (simp add: only_current_runs_def call_result_thread_def)
qed

lemma none_running_unless_current:
  assumes "only_current_runs a" and "\<not> session_running a" and "i < length (threads a)"
  shows "\<not> isRunning (threads a ! i)"
  using assms by (auto simp: only_current_runs_def session_running_def)

lemma only_current_runs_start:
  assumes "only_current_runs a"
  shows "only_current_runs (start_result_thread a)"
proof (cases "session_running a")
  case True
  then show ?thesis using assms by (simp add: start_result_thread_def)
next
  case False
  let ?b = "a\<lparr>threads := threads a @ [ResultThread], result_thread := Some (length (threads a))\<rparr>"
  have "only_current_runs ?b"
    using none_running_unless_current [OF assms False]
    by (auto simp: only_current_runs_def nth_append less_Suc_eq)
  then have "only_current_runs (call_result_thread start ?b)"
    by (rule only_current_runs_call)
  then show ?thesis using False by (simp add: start_result_thread_def)
qed

lemma only_current_runs_stop:
  "only_current_runs a \<Longrightarrow> only_current_runs (stop_result_thread a)"
  by (simp add: stop_result_thread_def only_current_runs_call)

lemma only_current_runs_ui [simp]:
  "only_current_runs (a\<lparr>ui := u\<rparr>) = only_current_runs a"
  by (simp add: only_current_runs_def)

lemma worker_step_running: "isRunning (worker_step th) \<Longrightarrow> isRunning th"
  by (auto simp: worker_step_def isRunning_def split: if_splits)

lemma only_current_runs_worker:
  assumes "only_current_runs a"
  shows "only_current_runs (handle (Worker j) a)"
proof (cases "j < length (threads a)")
  case False
  then show ?thesis using assms by simp
next
  case True
  have "result_thread a = Some i"
    if "i < length (threads a)"
      and "isRunning ((threads a)[j := worker_step (threads a ! j)] ! i)" for i
  proof -
    have "isRunning (threads a ! i)"
      using that True by (cases "i = j") (auto dest: worker_step_running)
    then show ?thesis using assms that by (simp add: only_current_runs_def)
  qed
  then show ?thesis using True by (simp add: only_current_runs_def)
qed

lemma only_current_runs_handle:
  assumes "only_current_runs a"
  shows "only_current_runs (handle ev a)"
proof (cases ev)
  case Activate
  then show ?thesis
    using assms
    by (simp add: on_activation_def only_current_runs_call only_current_runs_start
        only_current_runs_stop)
next
  case Deactivate
  then show ?thesis using assms by (simp add: on_deactivation_def only_current_runs_call)
next
  case Status_window_closed
  then show ?thesis using assms by (simp add: only_current_runs_stop)
next
  case (Worker j)
  then show ?thesis using assms by (simp only: only_current_runs_worker)
next
  case (Transcription_complete result)
  then show ?thesis
    using assms by (simp add: on_transcription_complete_def Let_def only_current_runs_start)
qed

lemma only_current_runs_fold:
  "only_current_runs a \<Longrightarrow> only_current_runs (fold handle evs a)"
  by (induction evs arbitrary: a) (simp_all add: only_current_runs_handle)

lemma only_current_runs_init: "only_current_runs (initialize_components mode hide noise)"
  by (simp add: only_current_runs_def initialize_components_def)

lemma only_current_runs_run:
  "only_current_runs (run evs (initialize_components mode hide noise))"
  unfolding run_def by (rule only_current_runs_fold [OF only_current_runs_init])

lemma only_current_runs_count:
  assumes "only_current_runs a"
  shows "active_sessions a \<le> 1"
proof -
  let ?running = "{i. i < length (threads a) \<and> isRunning (threads a ! i)}"
  let ?current = "case result_thread a of None \<Rightarrow> {} | Some j \<Rightarrow> {j}"
  have "?running \<subseteq> ?current"
    using assms by (auto simp: only_current_runs_def split: option.splits)
  then have "card ?running \<le> card ?current"
    by (intro card_mono) (auto split: option.splits)
  also have "\<dots> \<le> 1" by (simp split: option.splits)
  finally show ?thesis by (simp add: active_sessions_def length_filter_conv_card)
qed

text \<open>
  Claim C1. Whatever sequence of activations, deactivations, status-window closings, worker
  steps and completed transcriptions the controller handles after its components are
  initialised, at most one of the sessions it has created is running; and when the current
  session is running, a start request changes nothing: no second session is created.
\<close>

theorem at_most_one_recording_session:
  "active_sessions (run evs (initialize_components mode hide noise)) \<le> 1 \<and>
   (session_running (run evs (initialize_components mode hide noise)) \<longrightarrow>
      start_result_thread (run evs (initialize_components mode hide noise))
        = run evs (initialize_components mode hide noise))"
  using only_current_runs_count [OF only_current_runs_run, of evs mode hide noise]
  by (simp add: start_result_thread_def)

theorem at_most_one_recording_session_witness:
  "session_running (run [Activate] (initialize_components ''hold_to_record'' False False)) \<and>
   start_result_thread (run [Activate] (initialize_components ''hold_to_record'' False False))
     = run [Activate] (initialize_components ''hold_to_record'' False False) \<and>
   active_sessions (run [Activate] (initialize_components ''hold_to_record'' False False)) \<le> 1"
proof -
  have running:
    "session_running (run [Activate] (initialize_components ''hold_to_record'' False False))"
    by code_simp
  from at_most_one_recording_session [of "[Activate]" "''hold_to_record''" False False] running
  show ?thesis by blast
qed

end
